theory Spec2Isabelle
  imports Complex_Main
begin

section \<open>Raycaster.Map: the mapped object and its \<open>dynamic\<close> property\<close>

text \<open>
  The source is JavaScript. A game object is known to the program only by reference:
  \<open>Array.prototype.indexOf\<close> compares with strict equality, which on objects is
  identity. A reference is a number here, and \<open>None\<close> stands for \<open>undefined\<close>, the
  value of \<open>this.object\<close> until \<open>config\<close> assigns it.
\<close>

type_synonym object_ref = "nat option"

type_synonym point = "real \<times> real"

type_synonym line = "point \<times> point"

text \<open>
  Of the parent raycaster the setter touches \<open>dynamicMappedObjects\<close> and the three
  counters of \<open>_stats.mappedObjects\<close>. The counters are JavaScript numbers holding
  array lengths and their differences, hence integers.
\<close>

record mappedObjects_stats =
  total :: int
  static :: int
  dynamic :: int

record Raycaster =
  dynamicMappedObjects :: "object_ref list"
  stats_mappedObjects :: mappedObjects_stats

text \<open>
  The fields the constructor of \<open>Map\<close> declares. A leading underscore of the source is
  written \<open>priv_\<close>. \<open>priv_raycaster\<close> is \<open>None\<close> where the source stores \<open>false\<close>;
  otherwise it holds the parent raycaster as reached through the reference, and
  what the setter writes to the parent is returned there. \<open>notSupported\<close> is read by
  the constructor and never assigned in it: it is \<open>undefined\<close>, hence falsy, unless
  \<open>config\<close> sets it. The method slots \<open>getPoints\<close>, \<open>getSegments\<close>,
  \<open>getBoundingBox\<close> and \<open>updateMap\<close> are declared and left \<open>undefined\<close>; \<open>config\<close>
  fills them with the functions of the module for the object's kind. Of these the
  constructor calls \<open>updateMap\<close>: the slot holds the name of the module whose
  function is installed, \<open>None\<close> while it is \<open>undefined\<close>.
\<close>

record Raycaster_Map =
  priv_raycaster :: "Raycaster option"
  type :: "string option"
  active :: "bool option"
  priv_dynamic :: bool
  circle :: bool
  object :: object_ref
  priv_points :: "point list"
  priv_segments :: "line list"
  updateMap :: "string option"
  notSupported :: bool

subsection \<open>Array operations used by the setter\<close>

text \<open>\<open>xs.indexOf(v)\<close>: the first index holding \<open>v\<close>, or \<open>-1\<close>.\<close>

fun indexOf_from :: "'a list \<Rightarrow> 'a \<Rightarrow> int \<Rightarrow> int" where
  "indexOf_from [] v i = - 1"
| "indexOf_from (x # xs) v i = (if x = v then i else indexOf_from xs v (i + 1))"

definition indexOf :: "'a list \<Rightarrow> 'a \<Rightarrow> int" where
  "indexOf xs v = indexOf_from xs v 0"

text \<open>
  \<open>xs.splice(start, 1)\<close>: a negative \<open>start\<close> counts from the end, a \<open>start\<close> past
  the end removes nothing.
\<close>

definition splice1 :: "int \<Rightarrow> 'a list \<Rightarrow> 'a list" where
  "splice1 start xs =
     (let n = int (length xs);
          s = (if start < 0 then max (n + start) 0 else min start n)
      in take (nat s) xs @ drop (nat s + 1) xs)"

subsection \<open>The accessor pair \<open>dynamic\<close>\<close>

definition get_dynamic :: "Raycaster_Map \<Rightarrow> bool" where
  "get_dynamic this = priv_dynamic this"

text \<open>
  The setter, branch by branch. Its argument is the documented boolean, on which the
  loose comparison \<open>this._dynamic == dynamic\<close> is equality.
\<close>

definition set_dynamic :: "bool \<Rightarrow> Raycaster_Map \<Rightarrow> Raycaster_Map" where
  "set_dynamic dynamic_arg this =
     (if priv_dynamic this = dynamic_arg then this
      else if dynamic_arg then
        (let this = this\<lparr>priv_dynamic := True\<rparr> in
         case priv_raycaster this of
           None \<Rightarrow> this
         | Some rc \<Rightarrow>
             let rc = rc\<lparr>dynamicMappedObjects := dynamicMappedObjects rc @ [object this]\<rparr>;
                 rc = rc\<lparr>stats_mappedObjects := (stats_mappedObjects rc)
                        \<lparr>dynamic := int (length (dynamicMappedObjects rc))\<rparr>\<rparr>;
                 rc = rc\<lparr>stats_mappedObjects := (stats_mappedObjects rc)
                        \<lparr>static := total (stats_mappedObjects rc)
                                    - dynamic (stats_mappedObjects rc)\<rparr>\<rparr>
             in this\<lparr>priv_raycaster := Some rc\<rparr>)
      else
        (let this = this\<lparr>priv_dynamic := False\<rparr> in
         case priv_raycaster this of
           None \<Rightarrow> this
         | Some rc \<Rightarrow>
             let index = indexOf (dynamicMappedObjects rc) (object this);
                 rc = (if index \<ge> 0
                       then rc\<lparr>dynamicMappedObjects := splice1 index (dynamicMappedObjects rc)\<rparr>
                       else rc);
                 rc = rc\<lparr>stats_mappedObjects := (stats_mappedObjects rc)
                        \<lparr>dynamic := int (length (dynamicMappedObjects rc))\<rparr>\<rparr>;
                 rc = rc\<lparr>stats_mappedObjects := (stats_mappedObjects rc)
                        \<lparr>static := total (stats_mappedObjects rc)
                                    - dynamic (stats_mappedObjects rc)\<rparr>\<rparr>
             in this\<lparr>priv_raycaster := Some rc\<rparr>))"

text \<open>A sequence of assignments \<open>map.dynamic = b\<close>, first to last.\<close>

fun assignments :: "bool list \<Rightarrow> Raycaster_Map \<Rightarrow> Raycaster_Map" where
  "assignments [] this = this"
| "assignments (b # bs) this = assignments bs (set_dynamic b this)"

text \<open>What an observer reads off a map: the parent's collection and counters.\<close>

definition attached :: "Raycaster_Map \<Rightarrow> bool" where
  "attached this = (priv_raycaster this \<noteq> None)"

definition dynamicObjects :: "Raycaster_Map \<Rightarrow> object_ref list" where
  "dynamicObjects this =
     (case priv_raycaster this of None \<Rightarrow> [] | Some rc \<Rightarrow> dynamicMappedObjects rc)"

definition counters :: "Raycaster_Map \<Rightarrow> mappedObjects_stats option" where
  "counters this = map_option stats_mappedObjects (priv_raycaster this)"

subsection \<open>The constructor of \<open>Map\<close>\<close>

text \<open>
  The constructor throws nothing itself; what reaches its caller is what a method it
  calls threw.
\<close>

datatype error = UnsupportedShapeError | InvalidConfigurationError | TypeError

text \<open>
  Running a method gives the calls of \<open>config\<close> and \<open>updateMap\<close> made while it ran,
  in order, and its outcome: \<open>this\<close> as mutated, or the error thrown. \<open>invoke\<close> is
  the call of a function value: the call is recorded, then whatever the body calls.
\<close>

datatype method_call = Call_config | Call_updateMap

type_synonym 'a run = "method_call list \<times> (error + 'a)"

definition invoke :: "method_call \<Rightarrow> ('a \<Rightarrow> 'b run) \<Rightarrow> 'a \<Rightarrow> 'b run" where
  "invoke m body a = (m # fst (body a), snd (body a))"

text \<open>
  \<open>this.updateMap()\<close>: with the slot \<open>undefined\<close> nothing is called and a
  \<open>TypeError\<close> is thrown; otherwise the installed function runs. The functions the
  modules provide are the parameter \<open>impl\<close>, by module name.
\<close>

definition call_updateMap ::
  "(string \<Rightarrow> Raycaster_Map \<Rightarrow> Raycaster_Map run) \<Rightarrow> Raycaster_Map \<Rightarrow> Raycaster_Map run" where
  "call_updateMap impl this =
     (case updateMap this of
        None \<Rightarrow> ([], Inl TypeError)
      | Some k \<Rightarrow> invoke Call_updateMap (impl k) this)"

text \<open>The field initialisers, up to the call of \<open>config\<close>.\<close>

definition Map_fields :: "Raycaster option \<Rightarrow> Raycaster_Map" where
  "Map_fields raycaster =
     \<lparr>priv_raycaster = raycaster, type = None, active = None, priv_dynamic = False,
      circle = False, object = None, priv_points = [], priv_segments = [],
      updateMap = None, notSupported = False\<rparr>"

text \<open>
  The constructor's last lines: \<open>this.config(options)\<close>, then \<open>this.updateMap()\<close>
  unless \<open>this.notSupported\<close>, then \<open>return this\<close>. \<open>config\<close> (./config.js) is a
  parameter. An error thrown by either call ends the construction.
\<close>

definition Map ::
  "('opts \<Rightarrow> Raycaster_Map \<Rightarrow> Raycaster_Map run) \<Rightarrow>
   (string \<Rightarrow> Raycaster_Map \<Rightarrow> Raycaster_Map run) \<Rightarrow>
   'opts \<Rightarrow> Raycaster option \<Rightarrow> Raycaster_Map run" where
  "Map config impl options raycaster =
     (let configured = invoke Call_config (config options) (Map_fields raycaster) in
      case snd configured of
        Inl e \<Rightarrow> configured
      | Inr this \<Rightarrow>
          if \<not> notSupported this
          then (let updated = call_updateMap impl this
                in (fst configured @ fst updated, snd updated))
          else (fst configured, Inr this))"

section \<open>Raycaster.Ray\<close>

text \<open>
  \<open>Phaser.Math.MAX_SAFE_INTEGER\<close> is the library's constant \<open>9007199254740991\<close>,
  that is \<open>2^53 - 1\<close>. \<open>new Phaser.Geom.Point()\<close>, \<open>Line()\<close> and \<open>Circle()\<close> are
  the library's zero objects. Numbers are reals.
\<close>

definition MAX_SAFE_INTEGER :: real where
  "MAX_SAFE_INTEGER = 9007199254740991"

record Ray_stats =
  method_name :: string
  rays :: int
  testedMappedObjects :: int
  hitMappedObjects :: int
  segments :: int
  time :: real

text \<open>
  The fields the constructor of \<open>Ray\<close> sets. \<open>round\<close> is written \<open>round_flag\<close>,
  \<open>_stats.method\<close> is \<open>method_name\<close>,
  and the ray's own \<open>_raycaster\<close> is \<open>priv_raycaster_ray\<close>. \<open>bodyType\<close> is \<open>None\<close>
  for \<open>false\<close>; \<open>graphics\<close> is declared and left \<open>undefined\<close>.
\<close>

record Raycaster_Ray =
  priv_raycaster_ray :: "Raycaster option"
  origin :: point
  priv_ray :: line
  angle :: real
  cone :: real
  rayRange :: real
  detectionRange :: real
  detectionRangeCircle :: "point \<times> real"
  collisionRange :: real
  ignoreNotIntersectedRays :: bool
  round_flag :: bool
  autoSlice :: bool
  intersections :: "point list"
  slicedIntersections :: "(point \<times> point \<times> point) list"
  bodyType :: "string option"
  priv_stats :: Ray_stats
  graphics :: "nat option"

text \<open>The options the constructor documents, each optional.\<close>

record Ray_options =
  opt_origin :: "point option"
  opt_angle :: "real option"
  opt_angleDeg :: "real option"
  opt_cone :: "real option"
  opt_coneDeg :: "real option"
  opt_range :: "real option"
  opt_collisionRange :: "real option"
  opt_detectionRange :: "real option"
  opt_ignoreNotIntersectedRays :: "bool option"
  opt_autoSlice :: "bool option"
  opt_round :: "bool option"
  opt_enablePhysics :: "string option"

definition Ray_fields :: "Raycaster option \<Rightarrow> Raycaster_Ray" where
  "Ray_fields raycaster =
     \<lparr>priv_raycaster_ray = raycaster,
      origin = (0, 0),
      priv_ray = ((0, 0), (0, 0)),
      angle = 0,
      cone = 0,
      rayRange = MAX_SAFE_INTEGER,
      detectionRange = 0,
      detectionRangeCircle = ((0, 0), 0),
      collisionRange = MAX_SAFE_INTEGER,
      ignoreNotIntersectedRays = True,
      round_flag = False,
      autoSlice = False,
      intersections = [],
      slicedIntersections = [],
      bodyType = None,
      priv_stats = \<lparr>method_name = ''cast'', rays = 0, testedMappedObjects = 0,
                    hitMappedObjects = 0, segments = 0, time = 0\<rparr>,
      graphics = None\<rparr>"

text \<open>
  The constructor ends with \<open>this.config(options)\<close>; the ray's \<open>config\<close>
  (./config.js) lives in another module and is a parameter.
\<close>

definition Ray ::
  "(Ray_options \<Rightarrow> Raycaster_Ray \<Rightarrow> error + Raycaster_Ray) \<Rightarrow>
   Ray_options \<Rightarrow> Raycaster option \<Rightarrow> error + Raycaster_Ray" where
  "Ray config options raycaster = config options (Ray_fields raycaster)"

text \<open>A \<open>config\<close> honours the documented option \<open>range\<close> when it assigns
  \<open>rayRange\<close> only from a given \<open>options.range\<close>.\<close>

definition assigns_range_from_option ::
  "(Ray_options \<Rightarrow> Raycaster_Ray \<Rightarrow> error + Raycaster_Ray) \<Rightarrow> bool" where
  "assigns_range_from_option config =
     (\<forall>options this this'. opt_range options = None \<longrightarrow>
        config options this = Inr this' \<longrightarrow> rayRange this' = rayRange this)"

section \<open>Casting a single ray\<close>

text \<open>
  Modelled from the spec: \<open>cast\<close> (./cast.js) is missing from the sources, and so
  are the geometry of a mapped circle and of bounding boxes. The definitions below
  follow section 4.2 of the specification step by step. The coarse test
  (\<open>overlaps\<close>: detection circle against a target's bounding box) and the analytic
  test of a circle target (\<open>circle_hit\<close>) are parameters. The result is the
  intersection point or \<open>None\<close>; the \<open>_stats\<close> side effect is left out.
\<close>







section \<open>The dynamic registry as the data model has it\<close>

text \<open>
  The raycaster's collection of dynamic objects stands for a set whose members are the
  objects flagged dynamic. For one map this reads: its object is listed once when the
  flag is set, and not at all otherwise.
\<close>

definition tracked_once :: "Raycaster_Map \<Rightarrow> bool" where
  "tracked_once this =
     (count_list (dynamicObjects this) (object this) = (if priv_dynamic this then 1 else 0))"

text \<open>The counters agree with the collection: \<open>dynamic\<close> is its length, and
  \<open>static\<close> is \<open>total - dynamic\<close>.\<close>

definition counters_agree :: "Raycaster_Map \<Rightarrow> bool" where
  "counters_agree this =
     (case priv_raycaster this of
        None \<Rightarrow> False
      | Some rc \<Rightarrow>
          dynamic (stats_mappedObjects rc) = int (length (dynamicMappedObjects rc)) \<and>
          static (stats_mappedObjects rc)
            = total (stats_mappedObjects rc) - dynamic (stats_mappedObjects rc))"

section \<open>Concrete inputs\<close>

text \<open>A raycaster tracking one other object, and a fresh map of object 7 attached to it.\<close>

definition sample_raycaster :: Raycaster where
  "sample_raycaster =
     \<lparr>dynamicMappedObjects = [Some 1],
      stats_mappedObjects = \<lparr>total = 3, static = 2, dynamic = 1\<rparr>\<rparr>"

definition sample_map :: Raycaster_Map where
  "sample_map = (Map_fields (Some sample_raycaster))\<lparr>object := Some 7\<rparr>"

text \<open>
  The same object on a map built without a parent raycaster.
\<close>

definition detached_map :: Raycaster_Map where
  "detached_map = (Map_fields None)\<lparr>object := Some 7\<rparr>"

text \<open>
  A second map of object 7, built on the same raycaster once the first map has been
  made dynamic: the raycaster lists object 7 already, and the new map's flag is false.
\<close>

definition second_map :: Raycaster_Map where
  "second_map =
     (Map_fields (priv_raycaster (set_dynamic True sample_map)))\<lparr>object := Some 7\<rparr>"

text \<open>
  A fresh map of object 7 on a raycaster whose counters lag behind its collection.
\<close>

definition stale_raycaster :: Raycaster where
  "stale_raycaster =
     \<lparr>dynamicMappedObjects = [Some 1],
      stats_mappedObjects = \<lparr>total = 3, static = 0, dynamic = 0\<rparr>\<rparr>"

definition stale_map :: Raycaster_Map where
  "stale_map = (Map_fields (Some stale_raycaster))\<lparr>object := Some 7\<rparr>"

text \<open>
  Modelled from the spec: the map's \<open>config\<close> (./config.js) is missing from the
  sources. Section 4.1 of the specification has registration validate the kind of the
  shape and fail with \<open>UnsupportedShapeError\<close> unless it is one of polygon, circle,
  rectangle, line-set, and register the object into dynamic tracking iff
  \<open>options.dynamic\<close>; section 7 has the error surface at once, with no partial
  object. For a kind of the list this \<open>config\<close> stores the object and the kind,
  makes the map active, installs the kind's \<open>updateMap\<close> and assigns \<open>dynamic\<close>;
  it calls neither \<open>config\<close> nor \<open>updateMap\<close> itself.
\<close>

record Map_options =
  mo_object :: object_ref
  mo_type :: string
  mo_dynamic :: "bool option"

definition supported_kinds :: "string list" where
  "supported_kinds = [''polygon'', ''circle'', ''rectangle'', ''line-set'']"

definition Map_config :: "Map_options \<Rightarrow> Raycaster_Map \<Rightarrow> Raycaster_Map run" where
  "Map_config options this =
     (if mo_type options \<in> set supported_kinds
      then ([], Inr (set_dynamic (mo_dynamic options = Some True)
                  (this\<lparr>object := mo_object options, type := Some (mo_type options),
                        active := Some True, updateMap := Some (mo_type options)\<rparr>)))
      else ([], Inl UnsupportedShapeError))"

text \<open>
  Modelled from the spec: the modules that derive points and segments per kind are
  missing from the sources, and so is the geometry of the mapped objects. Section 4.1
  has \<open>updateMap\<close> recompute the caches from the source shape and set the circle
  flag for a circle; this instance takes every shape to be empty (section 4.1, edge
  cases: no points, no segments). It calls no method.
\<close>

definition updateMap_empty_shape :: "string \<Rightarrow> Raycaster_Map \<Rightarrow> Raycaster_Map run" where
  "updateMap_empty_shape k this =
     ([], Inr (this\<lparr>circle := (k = ''circle''), priv_points := [], priv_segments := []\<rparr>))"

text \<open>Options for a hexagon, a kind outside the list, and for a circle.\<close>

definition hexagon_options :: Map_options where
  "hexagon_options = \<lparr>mo_object = Some 7, mo_type = ''hexagon'', mo_dynamic = None\<rparr>"

definition circle_options :: Map_options where
  "circle_options = \<lparr>mo_object = Some 7, mo_type = ''circle'', mo_dynamic = None\<rparr>"

text \<open>
  Modelled from the spec: the ray's \<open>config\<close> (./config.js) is missing from the
  sources. Of the options the constructor documents, this instance applies those
  that the cast of section 4.2 reads: each, when given, replaces the constructor's
  default (section 3: range, default = max representable range).
\<close>

definition config_options :: "Ray_options \<Rightarrow> Raycaster_Ray \<Rightarrow> error + Raycaster_Ray" where
  "config_options options this =
     (let this = (case opt_origin options of None \<Rightarrow> this | Some p \<Rightarrow> this\<lparr>origin := p\<rparr>);
          this = (case opt_angle options of None \<Rightarrow> this | Some a \<Rightarrow> this\<lparr>angle := a\<rparr>);
          this = (case opt_range options of None \<Rightarrow> this | Some r \<Rightarrow> this\<lparr>rayRange := r\<rparr>);
          this = (case opt_ignoreNotIntersectedRays options of
                    None \<Rightarrow> this | Some b \<Rightarrow> this\<lparr>ignoreNotIntersectedRays := b\<rparr>);
          this = (case opt_round options of None \<Rightarrow> this | Some b \<Rightarrow> this\<lparr>round_flag := b\<rparr>)
      in Inr this)"

text \<open>
  \<open>new Ray({})\<close>: no option given.
\<close>

definition no_options :: Ray_options where
  "no_options =
     \<lparr>opt_origin = None, opt_angle = None, opt_angleDeg = None, opt_cone = None,
      opt_coneDeg = None, opt_range = None, opt_collisionRange = None,
      opt_detectionRange = None, opt_ignoreNotIntersectedRays = None,
      opt_autoSlice = None, opt_round = None, opt_enablePhysics = None\<rparr>"






section \<open>Array lemmas\<close>

lemma indexOf_from_takeWhile:
  "v \<in> set xs \<Longrightarrow> indexOf_from xs v i = i + int (length (takeWhile (\<lambda>x. x \<noteq> v) xs))"
  by (induction xs arbitrary: i) auto

lemma indexOf_from_absent: "v \<notin> set xs \<Longrightarrow> indexOf_from xs v i = - 1"
  by (induction xs arbitrary: i) auto

lemma indexOf_nonneg_iff: "0 \<le> indexOf xs v \<longleftrightarrow> v \<in> set xs"
  by (cases "v \<in> set xs") (simp_all add: indexOf_def indexOf_from_takeWhile indexOf_from_absent)

lemma remove1_takeWhile:
  "v \<in> set xs \<Longrightarrow>
     take (length (takeWhile (\<lambda>x. x \<noteq> v) xs)) xs
       @ drop (length (takeWhile (\<lambda>x. x \<noteq> v) xs) + 1) xs = remove1 v xs"
  by (induction xs) auto

lemma length_takeWhile_le_int: "int (length (takeWhile P xs)) \<le> int (length xs)"
  by (simp add: length_takeWhile_le)

lemma splice1_indexOf: "v \<in> set xs \<Longrightarrow> splice1 (indexOf xs v) xs = remove1 v xs"
  using remove1_takeWhile [of v xs] length_takeWhile_le [of "\<lambda>x. x \<noteq> v" xs]
  by (simp add: splice1_def indexOf_def indexOf_from_takeWhile Let_def min_def)

section \<open>The setter, case by case\<close>

lemma set_dynamic_same: "set_dynamic (priv_dynamic this) this = this"
  by (simp add: set_dynamic_def)

lemma set_dynamic_detached:
  "priv_raycaster this = None \<Longrightarrow> set_dynamic b this = this\<lparr>priv_dynamic := b\<rparr>"
  by (cases b) (simp_all add: set_dynamic_def)

lemma set_dynamic_on:
  assumes "priv_raycaster this = Some rc" and "\<not> priv_dynamic this"
  shows "set_dynamic True this =
           this\<lparr>priv_dynamic := True,
                priv_raycaster := Some
                  \<lparr>dynamicMappedObjects = dynamicMappedObjects rc @ [object this],
                   stats_mappedObjects =
                     \<lparr>total = total (stats_mappedObjects rc),
                      static = total (stats_mappedObjects rc)
                                 - (int (length (dynamicMappedObjects rc)) + 1),
                      dynamic = int (length (dynamicMappedObjects rc)) + 1\<rparr>\<rparr>\<rparr>"
  using assms by (simp add: set_dynamic_def Let_def)

lemma set_dynamic_off:
  assumes "priv_raycaster this = Some rc" and "priv_dynamic this"
  shows "set_dynamic False this =
           this\<lparr>priv_dynamic := False,
                priv_raycaster := Some
                  \<lparr>dynamicMappedObjects = remove1 (object this) (dynamicMappedObjects rc),
                   stats_mappedObjects =
                     \<lparr>total = total (stats_mappedObjects rc),
                      static = total (stats_mappedObjects rc)
                                 - int (length (remove1 (object this) (dynamicMappedObjects rc))),
                      dynamic = int (length (remove1 (object this) (dynamicMappedObjects rc)))\<rparr>\<rparr>\<rparr>"
proof (cases "object this \<in> set (dynamicMappedObjects rc)")
  case True
  then show ?thesis
    using assms by (simp add: set_dynamic_def Let_def indexOf_nonneg_iff splice1_indexOf)
next
  case False
  then have "remove1 (object this) (dynamicMappedObjects rc) = dynamicMappedObjects rc"
    by (simp add: remove1_idem)
  with False show ?thesis
    using assms by (simp add: set_dynamic_def Let_def indexOf_nonneg_iff)
qed

lemma priv_dynamic_set_dynamic: "priv_dynamic (set_dynamic b this) = b"
  by (cases b; cases "priv_raycaster this") (auto simp: set_dynamic_def Let_def)

lemma object_set_dynamic: "object (set_dynamic b this) = object this"
  by (cases b; cases "priv_raycaster this") (auto simp: set_dynamic_def Let_def)

lemma attached_set_dynamic: "attached (set_dynamic b this) = attached this"
  by (cases b; cases "priv_raycaster this") (auto simp: set_dynamic_def attached_def Let_def)

lemma dynamicObjects_set_dynamic:
  assumes "attached this"
  shows "dynamicObjects (set_dynamic b this) =
           (if priv_dynamic this = b then dynamicObjects this
            else if b then dynamicObjects this @ [object this]
            else remove1 (object this) (dynamicObjects this))"
proof -
  from assms obtain rc where rc: "priv_raycaster this = Some rc"
    by (auto simp: attached_def)
  show ?thesis
  proof (cases "priv_dynamic this = b")
    case True
    then show ?thesis using set_dynamic_same [of this] by auto
  next
    case False
    show ?thesis
    proof (cases b)
      case True
      with False rc show ?thesis
        by (simp add: set_dynamic_on [OF rc] dynamicObjects_def)
    next
      case b: False
      with False rc show ?thesis
        by (simp add: set_dynamic_off [OF rc] dynamicObjects_def)
    qed
  qed
qed

lemma counters_set_dynamic:
  assumes "priv_raycaster this = Some rc" and "priv_dynamic this \<noteq> b"
  shows "counters (set_dynamic b this) =
           Some \<lparr>total = total (stats_mappedObjects rc),
                 static = total (stats_mappedObjects rc)
                            - int (length (dynamicObjects (set_dynamic b this))),
                 dynamic = int (length (dynamicObjects (set_dynamic b this)))\<rparr>"
proof (cases b)
  case True
  with assms show ?thesis
    by (simp add: set_dynamic_on [OF assms(1)] counters_def dynamicObjects_def)
next
  case False
  with assms show ?thesis
    by (simp add: set_dynamic_off [OF assms(1)] counters_def dynamicObjects_def)
qed

lemma count_list_remove1:
  "count_list (remove1 v xs) w = (if v = w then count_list xs w - 1 else count_list xs w)"
  by (induction xs) auto

lemma tracked_once_set_dynamic:
  assumes "attached this" and "tracked_once this"
  shows "tracked_once (set_dynamic b this)"
  using assms
  by (auto simp: tracked_once_def dynamicObjects_set_dynamic object_set_dynamic
      priv_dynamic_set_dynamic count_list_remove1)

lemma attached_assignments: "attached (assignments bs this) = attached this"
  by (induction bs arbitrary: this) (simp_all add: attached_set_dynamic)

lemma object_assignments: "object (assignments bs this) = object this"
  by (induction bs arbitrary: this) (simp_all add: object_set_dynamic)

lemma tracked_once_assignments:
  "attached this \<Longrightarrow> tracked_once this \<Longrightarrow> tracked_once (assignments bs this)"
  by (induction bs arbitrary: this)
     (simp_all add: attached_set_dynamic tracked_once_set_dynamic)

lemma tracked_once_member:
  "tracked_once this \<Longrightarrow> (object this \<in> set (dynamicObjects this) \<longleftrightarrow> priv_dynamic this)"
  using count_list_0_iff [of "dynamicObjects this" "object this"]
  by (auto simp: tracked_once_def split: if_splits)

lemma distinct_set_dynamic:
  assumes "attached this" and "tracked_once this" and "distinct (dynamicObjects this)"
  shows "distinct (dynamicObjects (set_dynamic b this))"
  using assms tracked_once_member [of this]
  by (auto simp: dynamicObjects_set_dynamic)

lemma distinct_assignments:
  "attached this \<Longrightarrow> tracked_once this \<Longrightarrow> distinct (dynamicObjects this) \<Longrightarrow>
     distinct (dynamicObjects (assignments bs this))"
  by (induction bs arbitrary: this)
     (simp_all add: attached_set_dynamic tracked_once_set_dynamic distinct_set_dynamic)

section \<open>The concrete maps\<close>

lemma second_map_state:
  "attached second_map" "\<not> priv_dynamic second_map" "object second_map = Some 7"
  "dynamicObjects second_map = [Some 1, Some 7]"
  "counters second_map = Some \<lparr>total = 3, static = 1, dynamic = 2\<rparr>"
  by (simp_all add: second_map_def sample_map_def sample_raycaster_def Map_fields_def
      set_dynamic_def Let_def attached_def dynamicObjects_def counters_def)

lemma stale_map_state:
  "attached stale_map" "\<not> priv_dynamic stale_map" "object stale_map = Some 7"
  "dynamicObjects stale_map = [Some 1]"
  "counters stale_map = Some \<lparr>total = 3, static = 0, dynamic = 0\<rparr>"
  by (simp_all add: stale_map_def stale_raycaster_def Map_fields_def
      attached_def dynamicObjects_def counters_def)

section \<open>The membership invariant\<close>

text \<open>
  C1. As amended. For a map attached to a raycaster whose object is, before the first
  assignment, listed in \<open>dynamicMappedObjects\<close> exactly once if \<open>_dynamic\<close> is true
  and not at all if it is false: after any sequence of assignments to \<open>dynamic\<close> this
  is still so, hence the object is in the collection iff \<open>_dynamic\<close> is true; and a
  single assignment that changes the flag does the insertion (at the end) or the
  removal in that very call, so that flag and membership agree when it returns.
\<close>

theorem membership_follows_flag:
  assumes "attached this" and "tracked_once this"
  shows "attached (assignments bs this) \<and> tracked_once (assignments bs this) \<and>
         (object (assignments bs this) \<in> set (dynamicObjects (assignments bs this))
            \<longleftrightarrow> priv_dynamic (assignments bs this)) \<and>
         (priv_dynamic this \<noteq> b \<longrightarrow>
            priv_dynamic (set_dynamic b this) = b \<and>
            dynamicObjects (set_dynamic b this) =
              (if b then dynamicObjects this @ [object this]
               else remove1 (object this) (dynamicObjects this)) \<and>
            (object this \<in> set (dynamicObjects (set_dynamic b this)) \<longleftrightarrow> b))"
proof (intro conjI impI)
  show "attached (assignments bs this)"
    using assms(1) by (simp add: attached_assignments)
  show inv: "tracked_once (assignments bs this)"
    using assms by (rule tracked_once_assignments)
  show "object (assignments bs this) \<in> set (dynamicObjects (assignments bs this))
          \<longleftrightarrow> priv_dynamic (assignments bs this)"
    using inv by (rule tracked_once_member)
  show "priv_dynamic (set_dynamic b this) = b"
    by (rule priv_dynamic_set_dynamic)
  show "object this \<in> set (dynamicObjects (set_dynamic b this)) \<longleftrightarrow> b"
    using tracked_once_member [OF tracked_once_set_dynamic [OF assms, of b]]
    by (simp only: object_set_dynamic priv_dynamic_set_dynamic)
next
  assume "priv_dynamic this \<noteq> b"
  then show "dynamicObjects (set_dynamic b this) =
               (if b then dynamicObjects this @ [object this]
                else remove1 (object this) (dynamicObjects this))"
    using assms(1) by (simp add: dynamicObjects_set_dynamic)
qed

theorem membership_follows_flag_witness:
  "attached sample_map \<and> tracked_once sample_map \<and>
   dynamicObjects (assignments [True, True, False, True] sample_map) = [Some 1, Some 7] \<and>
   priv_dynamic (assignments [True, True, False, True] sample_map) \<and>
   \<not> priv_dynamic sample_map \<and>
   dynamicObjects (set_dynamic True sample_map) = [Some 1, Some 7]"
proof -
  have a: "attached sample_map"
    by (simp add: attached_def sample_map_def Map_fields_def)
  have t: "tracked_once sample_map"
    by (simp add: tracked_once_def dynamicObjects_def sample_map_def Map_fields_def
        sample_raycaster_def)
  have f: "\<not> priv_dynamic sample_map"
    by (simp add: sample_map_def Map_fields_def)
  have d: "dynamicObjects sample_map = [Some 1]"
    by (simp add: dynamicObjects_def sample_map_def Map_fields_def sample_raycaster_def)
  have ob: "object sample_map = Some 7"
    by (simp add: sample_map_def Map_fields_def)
  have run: "dynamicObjects (assignments [True, True, False, True] sample_map)
               = [Some 1, Some 7]"
    using a f by (simp add: dynamicObjects_set_dynamic attached_set_dynamic
        priv_dynamic_set_dynamic object_set_dynamic d ob)
  from membership_follows_flag [OF a t, of "[True, True, False, True]" True]
  have "(object (assignments [True, True, False, True] sample_map)
           \<in> set (dynamicObjects (assignments [True, True, False, True] sample_map))
         \<longleftrightarrow> priv_dynamic (assignments [True, True, False, True] sample_map))"
    and "priv_dynamic sample_map \<noteq> True \<longrightarrow>
           dynamicObjects (set_dynamic True sample_map) =
             dynamicObjects sample_map @ [object sample_map]"
    by simp_all
  then show ?thesis
    using a t f run by (simp add: object_set_dynamic ob d)
qed

text \<open>
  Against the statement for every attached map: on the second map of object 7 the
  assignment of true lists the object a second time, flag and membership agreeing,
  and the assignment of false then removes one occurrence only; the flag is false and
  the object is still in the collection.
\<close>

theorem second_map_flag_and_membership_disagree:
  "attached second_map \<and>
   priv_dynamic (set_dynamic True second_map) \<and>
   object second_map \<in> set (dynamicObjects (set_dynamic True second_map)) \<and>
   \<not> priv_dynamic (assignments [True, False] second_map) \<and>
   dynamicObjects (assignments [True, False] second_map) = [Some 1, Some 7] \<and>
   object (assignments [True, False] second_map)
     \<in> set (dynamicObjects (assignments [True, False] second_map))"
  using second_map_state
  by (simp add: dynamicObjects_set_dynamic attached_set_dynamic priv_dynamic_set_dynamic
      object_set_dynamic)

section \<open>Toggling and the counters\<close>

text \<open>
  C3. As amended. For a map attached to a raycaster whose flag is false, whose object is
  not in \<open>dynamicMappedObjects\<close> and whose raycaster's counters agree with that
  collection (dynamic is its length, static is total - dynamic), \<open>dynamic = true\<close>
  followed by \<open>dynamic = false\<close> restores the static and dynamic counters, leaves
  the object absent from the collection, and indeed gives back the state it started
  from.
\<close>

theorem toggle_on_off_restores:
  assumes "attached this" and "\<not> priv_dynamic this"
    and "object this \<notin> set (dynamicObjects this)" and "counters_agree this"
  shows "counters (set_dynamic False (set_dynamic True this)) = counters this \<and>
         object this \<notin> set (dynamicObjects (set_dynamic False (set_dynamic True this))) \<and>
         set_dynamic False (set_dynamic True this) = this"
proof -
  from assms(1) obtain rc where rc: "priv_raycaster this = Some rc"
    by (auto simp: attached_def)
  let ?on = "set_dynamic True this"
  have on: "?on = this\<lparr>priv_dynamic := True,
                priv_raycaster := Some
                  \<lparr>dynamicMappedObjects = dynamicMappedObjects rc @ [object this],
                   stats_mappedObjects =
                     \<lparr>total = total (stats_mappedObjects rc),
                      static = total (stats_mappedObjects rc)
                                 - (int (length (dynamicMappedObjects rc)) + 1),
                      dynamic = int (length (dynamicMappedObjects rc)) + 1\<rparr>\<rparr>\<rparr>"
    using rc assms(2) by (rule set_dynamic_on)
  have absent: "object this \<notin> set (dynamicMappedObjects rc)"
    using assms(3) rc by (simp add: dynamicObjects_def)
  have agree: "dynamic (stats_mappedObjects rc) = int (length (dynamicMappedObjects rc))"
    "static (stats_mappedObjects rc)
       = total (stats_mappedObjects rc) - dynamic (stats_mappedObjects rc)"
    using assms(4) rc by (simp_all add: counters_agree_def)
  have restored: "set_dynamic False ?on = this"
    using rc assms(2) absent agree
    by (subst set_dynamic_off [where rc = "the (priv_raycaster ?on)"])
       (simp_all add: on remove1_append)
  show ?thesis
    using restored assms(3) by simp
qed

text \<open>
  The instance: the fresh map of object 7, whose raycaster tracks one other object.
\<close>

theorem toggle_on_off_restores_witness:
  "attached sample_map \<and> \<not> priv_dynamic sample_map \<and>
   object sample_map \<notin> set (dynamicObjects sample_map) \<and> counters_agree sample_map \<and>
   counters (set_dynamic False (set_dynamic True sample_map))
     = Some \<lparr>total = 3, static = 2, dynamic = 1\<rparr> \<and>
   dynamicObjects (set_dynamic False (set_dynamic True sample_map)) = [Some 1]"
proof -
  have a: "attached sample_map"
    by (simp add: attached_def sample_map_def Map_fields_def)
  have f: "\<not> priv_dynamic sample_map"
    by (simp add: sample_map_def Map_fields_def)
  have d: "dynamicObjects sample_map = [Some 1]"
    by (simp add: dynamicObjects_def sample_map_def Map_fields_def sample_raycaster_def)
  have ob: "object sample_map = Some 7"
    by (simp add: sample_map_def Map_fields_def)
  have n: "object sample_map \<notin> set (dynamicObjects sample_map)"
    by (simp add: d ob)
  have c: "counters_agree sample_map"
    by (simp add: counters_agree_def sample_map_def Map_fields_def sample_raycaster_def)
  have cs: "counters sample_map = Some \<lparr>total = 3, static = 2, dynamic = 1\<rparr>"
    by (simp add: counters_def sample_map_def Map_fields_def sample_raycaster_def)
  show ?thesis
    using toggle_on_off_restores [OF a f n c] a f n c cs d by simp
qed

text \<open>
  Against the statement for every attached map with the flag false: on the second
  map of object 7 the object is still listed after the two assignments; on the
  raycaster with lagging counters the two assignments recompute static and dynamic
  from the length of the collection instead of restoring them.
\<close>

theorem toggle_leaves_listed_object_or_recomputes_counters:
  "attached second_map \<and> \<not> priv_dynamic second_map \<and>
   object second_map \<in> set (dynamicObjects (set_dynamic False (set_dynamic True second_map))) \<and>
   attached stale_map \<and> \<not> priv_dynamic stale_map \<and>
   counters stale_map = Some \<lparr>total = 3, static = 0, dynamic = 0\<rparr> \<and>
   counters (set_dynamic False (set_dynamic True stale_map))
     = Some \<lparr>total = 3, static = 2, dynamic = 1\<rparr>"
proof -
  have listed: "object second_map
      \<in> set (dynamicObjects (set_dynamic False (set_dynamic True second_map)))"
    using second_map_state
    by (simp add: dynamicObjects_set_dynamic attached_set_dynamic priv_dynamic_set_dynamic
        object_set_dynamic)
  have recomputed: "counters (set_dynamic False (set_dynamic True stale_map))
     = Some \<lparr>total = 3, static = 2, dynamic = 1\<rparr>"
    by (simp add: stale_map_def stale_raycaster_def Map_fields_def set_dynamic_def Let_def
        counters_def indexOf_def splice1_def)
  show ?thesis
    using listed recomputed second_map_state(1,2) stale_map_state(1,2,5) by simp
qed

text \<open>
C4. Assigning to \<open>dynamic\<close> the value the getter returns is a no-op: the
  whole state is unchanged, so the flag, the raycaster's collection and the three
  counters are.
\<close>

theorem same_value_is_noop:
  "set_dynamic (get_dynamic this) this = this \<and>
   priv_dynamic (set_dynamic (get_dynamic this) this) = priv_dynamic this \<and>
   dynamicObjects (set_dynamic (get_dynamic this) this) = dynamicObjects this \<and>
   counters (set_dynamic (get_dynamic this) this) = counters this"
  by (simp add: get_dynamic_def set_dynamic_same)

text \<open>
C5. After an assignment to \<open>dynamic\<close> that changes the flag of a map
  attached to a raycaster, the counters are consistent: the dynamic count is the
  length of \<open>dynamicMappedObjects\<close>, the static count is the total minus the dynamic
  count, and so static + dynamic = total.
\<close>

theorem counters_consistent_after_change:
  assumes "attached this" and "priv_dynamic this \<noteq> b"
  shows "counters_agree (set_dynamic b this) \<and>
         (\<exists>st. counters (set_dynamic b this) = Some st \<and>
            dynamic st = int (length (dynamicObjects (set_dynamic b this))) \<and>
            static st = total st - dynamic st \<and>
            static st + dynamic st = total st)"
proof -
  from assms(1) obtain rc where rc: "priv_raycaster this = Some rc"
    by (auto simp: attached_def)
  have c: "counters (set_dynamic b this) =
           Some \<lparr>total = total (stats_mappedObjects rc),
                 static = total (stats_mappedObjects rc)
                            - int (length (dynamicObjects (set_dynamic b this))),
                 dynamic = int (length (dynamicObjects (set_dynamic b this)))\<rparr>"
    using rc assms(2) by (rule counters_set_dynamic)
  have "counters_agree (set_dynamic b this)"
    using c by (auto simp: counters_agree_def counters_def dynamicObjects_def
        split: option.splits)
  then show ?thesis using c by simp
qed

text \<open>
  The instance: the first \<open>dynamic = true\<close> on the fresh map.
\<close>

theorem counters_consistent_after_change_witness:
  "attached sample_map \<and> priv_dynamic sample_map \<noteq> True \<and>
   counters_agree (set_dynamic True sample_map) \<and>
   counters (set_dynamic True sample_map) = Some \<lparr>total = 3, static = 1, dynamic = 2\<rparr>"
proof -
  have a: "attached sample_map"
    by (simp add: attached_def sample_map_def Map_fields_def)
  have f: "priv_dynamic sample_map \<noteq> True"
    by (simp add: sample_map_def Map_fields_def)
  have cs: "counters (set_dynamic True sample_map)
              = Some \<lparr>total = 3, static = 1, dynamic = 2\<rparr>"
    by (simp add: counters_def set_dynamic_def Let_def sample_map_def Map_fields_def
        sample_raycaster_def)
  show ?thesis
    using counters_consistent_after_change [OF a f] a f cs by simp
qed

section \<open>No double registration\<close>

text \<open>
  C9. As amended. For a map attached to a raycaster whose object is, before the first
  assignment, listed in \<open>dynamicMappedObjects\<close> exactly once if \<open>_dynamic\<close> is true
  and not at all if it is false, and which is mutated through the setter only: the
  object is never listed twice, and a collection free of duplicates stays so; the
  collection grows only on a transition of the flag from false to true; and
  assigning true twice is assigning it once.
\<close>

theorem no_double_registration:
  assumes "attached this" and "tracked_once this"
  shows "count_list (dynamicObjects (assignments bs this)) (object this) \<le> 1 \<and>
         (distinct (dynamicObjects this) \<longrightarrow> distinct (dynamicObjects (assignments bs this))) \<and>
         (length (dynamicObjects this) < length (dynamicObjects (set_dynamic b this))
            \<longrightarrow> \<not> priv_dynamic this \<and> b) \<and>
         set_dynamic True (set_dynamic True this) = set_dynamic True this"
proof (intro conjI impI)
  have "tracked_once (assignments bs this)"
    using assms by (rule tracked_once_assignments)
  then show "count_list (dynamicObjects (assignments bs this)) (object this) \<le> 1"
    by (simp add: tracked_once_def object_assignments split: if_splits)
next
  assume "distinct (dynamicObjects this)"
  with assms show "distinct (dynamicObjects (assignments bs this))"
    by (rule distinct_assignments)
next
  assume grows: "length (dynamicObjects this) < length (dynamicObjects (set_dynamic b this))"
  have "length (remove1 (object this) (dynamicObjects this)) \<le> length (dynamicObjects this)"
    by (simp add: length_remove1)
  with grows assms(1) show "\<not> priv_dynamic this" and "b"
    by (auto simp: dynamicObjects_set_dynamic split: if_splits)
next
  show "set_dynamic True (set_dynamic True this) = set_dynamic True this"
    using set_dynamic_same [of "set_dynamic True this"]
    by (simp add: priv_dynamic_set_dynamic)
qed

text \<open>
  The instance: \<open>dynamic = true\<close> three times in a row on the fresh map.
\<close>

theorem no_double_registration_witness:
  "attached sample_map \<and> tracked_once sample_map \<and> distinct (dynamicObjects sample_map) \<and>
   count_list (dynamicObjects (assignments [True, True, True] sample_map)) (Some 7) \<le> 1 \<and>
   distinct (dynamicObjects (assignments [True, True, True] sample_map)) \<and>
   dynamicObjects (assignments [True, True, True] sample_map) = [Some 1, Some 7]"
proof -
  have a: "attached sample_map"
    by (simp add: attached_def sample_map_def Map_fields_def)
  have t: "tracked_once sample_map"
    by (simp add: tracked_once_def dynamicObjects_def sample_map_def Map_fields_def
        sample_raycaster_def)
  have f: "\<not> priv_dynamic sample_map"
    by (simp add: sample_map_def Map_fields_def)
  have d: "dynamicObjects sample_map = [Some 1]"
    by (simp add: dynamicObjects_def sample_map_def Map_fields_def sample_raycaster_def)
  have ob: "object sample_map = Some 7"
    by (simp add: sample_map_def Map_fields_def)
  have run: "dynamicObjects (assignments [True, True, True] sample_map) = [Some 1, Some 7]"
    using a f by (simp add: dynamicObjects_set_dynamic attached_set_dynamic
        priv_dynamic_set_dynamic object_set_dynamic d ob)
  from no_double_registration [OF a t, of "[True, True, True]" True]
  have "count_list (dynamicObjects (assignments [True, True, True] sample_map))
          (object sample_map) \<le> 1"
    and "distinct (dynamicObjects sample_map) \<longrightarrow>
           distinct (dynamicObjects (assignments [True, True, True] sample_map))"
    by blast+
  then show ?thesis
    using a t run by (simp add: d ob)
qed

text \<open>
  Against the statement for every attached map: the second map of object 7 is
  guarded by its own flag only, so its first assignment of true lists the object
  twice.
\<close>

theorem second_map_lists_object_twice:
  "attached second_map \<and>
   dynamicObjects (assignments [True] second_map) = [Some 1, Some 7, Some 7] \<and>
   count_list (dynamicObjects (assignments [True] second_map)) (object second_map) = 2 \<and>
   \<not> distinct (dynamicObjects (assignments [True] second_map))"
  using second_map_state
  by (simp add: dynamicObjects_set_dynamic attached_set_dynamic priv_dynamic_set_dynamic
      object_set_dynamic)

section \<open>A map without a parent raycaster\<close>

text \<open>
C10. On a map whose \<open>_raycaster\<close> is \<open>false\<close>, an assignment to
  \<open>dynamic\<close> changes the \<open>_dynamic\<close> flag and nothing else; in particular no
  raycaster comes into being. The setter has no failing branch: it is a total function
  of the model, the guard \<open>if(this._raycaster)\<close> being the case distinction.
\<close>

theorem detached_assignment_sets_flag_only:
  assumes "\<not> attached this"
  shows "set_dynamic b this = this\<lparr>priv_dynamic := b\<rparr> \<and>
         priv_raycaster (set_dynamic b this) = None"
  using assms by (simp add: attached_def set_dynamic_detached)

text \<open>
  The instance: the map built without a raycaster.
\<close>

theorem detached_assignment_sets_flag_only_witness:
  "\<not> attached detached_map \<and>
   set_dynamic True detached_map = detached_map\<lparr>priv_dynamic := True\<rparr> \<and>
   priv_raycaster (set_dynamic True detached_map) = None"
proof -
  have a: "\<not> attached detached_map"
    by (simp add: attached_def detached_map_def Map_fields_def)
  have r: "priv_raycaster detached_map = None"
    by (simp add: detached_map_def Map_fields_def)
  show ?thesis
    using detached_assignment_sets_flag_only [OF a, of True] a r by simp
qed

section \<open>The constructor of \<open>Map\<close> and the kinds of shapes\<close>

text \<open>What the constructor does with any \<open>config\<close>, by the outcome of \<open>config\<close>.\<close>

lemma Map_config_threw:
  assumes "snd (config options (Map_fields raycaster)) = Inl e"
  shows "Map config impl options raycaster
           = (Call_config # fst (config options (Map_fields raycaster)), Inl e)"
  using assms by (simp add: Map_def invoke_def Let_def)

lemma Map_flagged:
  assumes "snd (config options (Map_fields raycaster)) = Inr this" and "notSupported this"
  shows "Map config impl options raycaster
           = (Call_config # fst (config options (Map_fields raycaster)), Inr this)"
  using assms by (simp add: Map_def invoke_def Let_def)

lemma Map_supported:
  assumes "snd (config options (Map_fields raycaster)) = Inr this"
    and "\<not> notSupported this"
  shows "Map config impl options raycaster
           = (Call_config # fst (config options (Map_fields raycaster))
                @ fst (call_updateMap impl this),
              snd (call_updateMap impl this))"
  using assms by (simp add: Map_def invoke_def Let_def)

text \<open>The \<open>config\<close> of the specification.\<close>

lemma updateMap_set_dynamic: "updateMap (set_dynamic b this) = updateMap this"
  by (cases b; cases "priv_raycaster this") (auto simp: set_dynamic_def Let_def)

lemma notSupported_set_dynamic: "notSupported (set_dynamic b this) = notSupported this"
  by (cases b; cases "priv_raycaster this") (auto simp: set_dynamic_def Let_def)

lemma Map_config_supported:
  assumes "mo_type options \<in> set supported_kinds"
  shows "\<exists>this. Map_config options (Map_fields raycaster) = ([], Inr this) \<and>
           updateMap this = Some (mo_type options) \<and> \<not> notSupported this \<and>
           object this = mo_object options \<and> type this = Some (mo_type options)"
  using assms
  by (simp add: Map_config_def updateMap_set_dynamic notSupported_set_dynamic
      object_set_dynamic Map_fields_def)
     (cases "mo_dynamic options = Some True"; cases raycaster;
      simp add: set_dynamic_def Let_def)

lemma Map_config_unsupported:
  assumes "mo_type options \<notin> set supported_kinds"
  shows "Map_config options this = ([], Inl UnsupportedShapeError)"
  using assms by (simp add: Map_config_def)

text \<open>
  C6. With \<open>config\<close> as the specification has it, and per-kind functions that do
  not themselves call \<open>updateMap\<close>: constructing the map of a shape of a supported
  kind (polygon, circle, rectangle, line-set) calls \<open>updateMap\<close> exactly once, on the
  configured map, and the outcome of the construction is the outcome of that call;
  for a shape of any other kind \<open>updateMap\<close> is not called during construction.
\<close>

theorem constructor_invokes_updateMap_once:
  assumes "\<forall>k this. Call_updateMap \<notin> set (fst (impl k this))"
  shows "count_list (fst (Map Map_config impl options raycaster)) Call_updateMap
           = (if mo_type options \<in> set supported_kinds then 1 else 0) \<and>
         (mo_type options \<in> set supported_kinds \<longrightarrow>
            (\<exists>this. snd (Map_config options (Map_fields raycaster)) = Inr this \<and>
               snd (Map Map_config impl options raycaster)
                 = snd (impl (mo_type options) this)))"
proof (cases "mo_type options \<in> set supported_kinds")
  case True
  then obtain this where cfg: "Map_config options (Map_fields raycaster) = ([], Inr this)"
    and slot: "updateMap this = Some (mo_type options)" and sup: "\<not> notSupported this"
    using Map_config_supported [of options raycaster] by blast
  have run: "Map Map_config impl options raycaster
           = (Call_config # fst (call_updateMap impl this), snd (call_updateMap impl this))"
    using Map_supported [of Map_config options raycaster this impl] cfg sup by simp
  have call: "call_updateMap impl this
           = (Call_updateMap # fst (impl (mo_type options) this),
              snd (impl (mo_type options) this))"
    using slot by (simp add: call_updateMap_def invoke_def)
  have inner: "count_list (fst (impl (mo_type options) this)) Call_updateMap = 0"
    using assms by simp
  show ?thesis
    using True cfg by (simp add: run call inner)
next
  case False
  then have "Map Map_config impl options raycaster = ([Call_config], Inl UnsupportedShapeError)"
    using Map_config_threw [of Map_config options raycaster UnsupportedShapeError impl]
    by (simp add: Map_config_unsupported)
  with False show ?thesis by simp
qed

text \<open>
  The instances: a circle, for which the calls are \<open>config\<close> then \<open>updateMap\<close>,
  and a hexagon.
\<close>

theorem constructor_invokes_updateMap_once_witness:
  "(\<forall>k this. Call_updateMap \<notin> set (fst (updateMap_empty_shape k this))) \<and>
   count_list (fst (Map Map_config updateMap_empty_shape circle_options None)) Call_updateMap = 1 \<and>
   count_list (fst (Map Map_config updateMap_empty_shape hexagon_options None)) Call_updateMap = 0 \<and>
   fst (Map Map_config updateMap_empty_shape circle_options None) = [Call_config, Call_updateMap]"
proof -
  have h: "\<forall>k this. Call_updateMap \<notin> set (fst (updateMap_empty_shape k this))"
    by (simp add: updateMap_empty_shape_def)
  have c: "mo_type circle_options \<in> set supported_kinds"
    "mo_type hexagon_options \<notin> set supported_kinds"
    by (simp_all add: circle_options_def hexagon_options_def supported_kinds_def)
  have l: "fst (Map Map_config updateMap_empty_shape circle_options None)
             = [Call_config, Call_updateMap]"
    by (simp add: Map_def Map_config_def invoke_def call_updateMap_def Let_def
        circle_options_def supported_kinds_def updateMap_empty_shape_def Map_fields_def
        set_dynamic_def)
  show ?thesis
    using constructor_invokes_updateMap_once [OF h, of circle_options None]
      constructor_invokes_updateMap_once [OF h, of hexagon_options None] h c l
    by simp
qed

text \<open>
  C2. With \<open>config\<close> as the specification has it, registering a shape whose kind
  is not one of polygon, circle, rectangle, line-set fails with
  \<open>UnsupportedShapeError\<close>: the constructor's one call is \<open>config\<close>, whose error
  reaches the caller, \<open>updateMap\<close> is not called, and no map object is returned.
\<close>

theorem unsupported_kind_raises:
  assumes "mo_type options \<notin> set supported_kinds"
  shows "Map Map_config impl options raycaster = ([Call_config], Inl UnsupportedShapeError)"
  using Map_config_threw [of Map_config options raycaster UnsupportedShapeError impl] assms
  by (simp add: Map_config_unsupported)

text \<open>
  The instance: a hexagon, registered on the sample raycaster.
\<close>

theorem unsupported_kind_raises_witness:
  "mo_type hexagon_options \<notin> set supported_kinds \<and>
   Map Map_config updateMap_empty_shape hexagon_options (Some sample_raycaster)
     = ([Call_config], Inl UnsupportedShapeError)"
proof -
  have h: "mo_type hexagon_options \<notin> set supported_kinds"
    by (simp add: hexagon_options_def supported_kinds_def)
  show ?thesis
    using unsupported_kind_raises [OF h, of updateMap_empty_shape "Some sample_raycaster"] h
    by simp
qed

section \<open>The default range of a ray\<close>

text \<open>
C8. The constructor of \<open>Ray\<close> initialises \<open>rayRange\<close> to
  \<open>Phaser.Math.MAX_SAFE_INTEGER\<close>; so a ray constructed with no \<open>range\<close> option,
  by a \<open>config\<close> that assigns \<open>rayRange\<close> from that option only, has that range.
\<close>

theorem default_range_is_max_safe_integer:
  "rayRange (Ray_fields raycaster) = MAX_SAFE_INTEGER \<and>
   (opt_range options = None \<longrightarrow> assigns_range_from_option config \<longrightarrow>
      Ray config options raycaster = Inr this \<longrightarrow> rayRange this = MAX_SAFE_INTEGER)"
  by (auto simp: Ray_def Ray_fields_def assigns_range_from_option_def)

text \<open>
  The instance: \<open>new Ray({})\<close>.
\<close>

theorem default_range_is_max_safe_integer_witness:
  "opt_range no_options = None \<and> assigns_range_from_option config_options \<and>
   Ray config_options no_options None = Inr (Ray_fields None) \<and>
   rayRange (Ray_fields None) = 9007199254740991"
proof -
  have o: "opt_range no_options = None"
    by (simp add: no_options_def)
  have c: "assigns_range_from_option config_options"
    by (auto simp: assigns_range_from_option_def config_options_def Let_def
        split: option.splits)
  have r: "Ray config_options no_options None = Inr (Ray_fields None)"
    by (simp add: Ray_def config_options_def no_options_def)
  show ?thesis
    using default_range_is_max_safe_integer
      [of None no_options config_options "Ray_fields None"] o c r
    by (simp add: MAX_SAFE_INTEGER_def)
qed

section \<open>Casting with no obstacles\<close>





end
